theory Spec2Isabelle
  imports Complex_Main
begin

section \<open>JavaScript numbers\<close>

text \<open>
  A JavaScript \<^verbatim>\<open>number\<close> is modelled by its special values and, for a finite value, the
  real number it denotes. Finite arithmetic is exact here: rounding to 53 bits,
  overflow to an infinity and the sign of zero are not represented. The general
  theorems below rest on the special values and on the order of the numbers only, never
  on the value a finite operation returns: in binary64 that value is rounded, and the haversine
  formula of the code can then leave its exact range (for two antipodal points
  \<^verbatim>\<open>a\<close> can round above 1, \<^verbatim>\<open>Math.sqrt(1 - a)\<close> is then \<open>NaN\<close>, and so is the distance).
  The operators follow ECMAScript on the special values: every operation with a
  \<open>NaN\<close> operand is \<open>NaN\<close>, and every comparison with \<open>NaN\<close> is false.
\<close>

datatype jsnum = NaN | PInf | NInf | Num real

instantiation jsnum :: "{plus, minus, times, inverse, ord}"
begin

fun plus_jsnum :: "jsnum \<Rightarrow> jsnum \<Rightarrow> jsnum" where
  "plus_jsnum NaN y = NaN"
| "plus_jsnum x NaN = NaN"
| "plus_jsnum PInf NInf = NaN"
| "plus_jsnum NInf PInf = NaN"
| "plus_jsnum PInf y = PInf"
| "plus_jsnum x PInf = PInf"
| "plus_jsnum NInf y = NInf"
| "plus_jsnum x NInf = NInf"
| "plus_jsnum (Num x) (Num y) = Num (x + y)"

fun minus_jsnum :: "jsnum \<Rightarrow> jsnum \<Rightarrow> jsnum" where
  "minus_jsnum NaN y = NaN"
| "minus_jsnum x NaN = NaN"
| "minus_jsnum PInf PInf = NaN"
| "minus_jsnum NInf NInf = NaN"
| "minus_jsnum PInf y = PInf"
| "minus_jsnum x PInf = NInf"
| "minus_jsnum NInf y = NInf"
| "minus_jsnum x NInf = PInf"
| "minus_jsnum (Num x) (Num y) = Num (x - y)"

fun times_jsnum :: "jsnum \<Rightarrow> jsnum \<Rightarrow> jsnum" where
  "times_jsnum NaN y = NaN"
| "times_jsnum x NaN = NaN"
| "times_jsnum PInf PInf = PInf"
| "times_jsnum PInf NInf = NInf"
| "times_jsnum NInf PInf = NInf"
| "times_jsnum NInf NInf = PInf"
| "times_jsnum PInf (Num y) = (if y = 0 then NaN else if 0 < y then PInf else NInf)"
| "times_jsnum NInf (Num y) = (if y = 0 then NaN else if 0 < y then NInf else PInf)"
| "times_jsnum (Num x) PInf = (if x = 0 then NaN else if 0 < x then PInf else NInf)"
| "times_jsnum (Num x) NInf = (if x = 0 then NaN else if 0 < x then NInf else PInf)"
| "times_jsnum (Num x) (Num y) = Num (x * y)"

text \<open>
  A zero divisor is taken as \<open>+0\<close>. The code under study divides by the literals
  \<^verbatim>\<open>180\<close> and \<^verbatim>\<open>2\<close> only.
\<close>

fun divide_jsnum :: "jsnum \<Rightarrow> jsnum \<Rightarrow> jsnum" where
  "divide_jsnum NaN y = NaN"
| "divide_jsnum x NaN = NaN"
| "divide_jsnum PInf PInf = NaN"
| "divide_jsnum PInf NInf = NaN"
| "divide_jsnum NInf PInf = NaN"
| "divide_jsnum NInf NInf = NaN"
| "divide_jsnum PInf (Num y) = (if 0 \<le> y then PInf else NInf)"
| "divide_jsnum NInf (Num y) = (if 0 \<le> y then NInf else PInf)"
| "divide_jsnum (Num x) PInf = Num 0"
| "divide_jsnum (Num x) NInf = Num 0"
| "divide_jsnum (Num x) (Num y) =
     (if y = 0 then (if x = 0 then NaN else if 0 < x then PInf else NInf)
      else Num (x / y))"

definition inverse_jsnum :: "jsnum \<Rightarrow> jsnum" where
  "inverse_jsnum x = divide (Num 1) x"

fun less_eq_jsnum :: "jsnum \<Rightarrow> jsnum \<Rightarrow> bool" where
  "less_eq_jsnum NaN y = False"
| "less_eq_jsnum x NaN = False"
| "less_eq_jsnum NInf y = True"
| "less_eq_jsnum x PInf = True"
| "less_eq_jsnum PInf y = False"
| "less_eq_jsnum x NInf = False"
| "less_eq_jsnum (Num x) (Num y) = (x \<le> y)"

fun less_jsnum :: "jsnum \<Rightarrow> jsnum \<Rightarrow> bool" where
  "less_jsnum NaN y = False"
| "less_jsnum x NaN = False"
| "less_jsnum PInf y = False"
| "less_jsnum x NInf = False"
| "less_jsnum NInf y = True"
| "less_jsnum x PInf = True"
| "less_jsnum (Num x) (Num y) = (x < y)"

instance ..

end

text \<open>\<^verbatim>\<open>Math.PI\<close>, \<^verbatim>\<open>Math.sin\<close>, \<^verbatim>\<open>Math.cos\<close>, \<^verbatim>\<open>Math.sqrt\<close> and \<^verbatim>\<open>Math.atan2\<close>.\<close>

definition Math_PI :: jsnum where
  "Math_PI = Num pi"

fun Math_sin :: "jsnum \<Rightarrow> jsnum" where
  "Math_sin (Num x) = Num (sin x)"
| "Math_sin x = NaN"

fun Math_cos :: "jsnum \<Rightarrow> jsnum" where
  "Math_cos (Num x) = Num (cos x)"
| "Math_cos x = NaN"

fun Math_sqrt :: "jsnum \<Rightarrow> jsnum" where
  "Math_sqrt (Num x) = (if x < 0 then NaN else Num (sqrt x))"
| "Math_sqrt PInf = PInf"
| "Math_sqrt x = NaN"

definition atan2 :: "real \<Rightarrow> real \<Rightarrow> real" where
  "atan2 y x =
     (if 0 < x then arctan (y / x)
      else if x < 0 then (if 0 \<le> y then arctan (y / x) + pi else arctan (y / x) - pi)
      else if 0 < y then pi / 2
      else if y < 0 then - (pi / 2)
      else 0)"

fun Math_atan2 :: "jsnum \<Rightarrow> jsnum \<Rightarrow> jsnum" where
  "Math_atan2 NaN x = NaN"
| "Math_atan2 y NaN = NaN"
| "Math_atan2 PInf PInf = Num (pi / 4)"
| "Math_atan2 PInf NInf = Num (3 * pi / 4)"
| "Math_atan2 PInf (Num x) = Num (pi / 2)"
| "Math_atan2 NInf PInf = Num (- (pi / 4))"
| "Math_atan2 NInf NInf = Num (- (3 * pi / 4))"
| "Math_atan2 NInf (Num x) = Num (- (pi / 2))"
| "Math_atan2 (Num y) PInf = Num 0"
| "Math_atan2 (Num y) NInf = (if 0 \<le> y then Num pi else Num (- pi))"
| "Math_atan2 (Num y) (Num x) = Num (atan2 y x)"


section \<open>Arrays and Maps\<close>

text \<open>
  \<^verbatim>\<open>Array.prototype.sort(cmp)\<close> is stable (ECMAScript 2019) and, for a comparator
  that is consistent on the array, orders it by \<open>cmp\<close>: \<open>b\<close> goes before \<open>a\<close> exactly
  when \<open>cmp a b > 0\<close>, and a \<open>NaN\<close> result counts as \<open>0\<close>. The engine's algorithm is not
  part of the repository; the model is the stable insertion sort with that test.
\<close>

fun insert_js :: "('a \<Rightarrow> 'a \<Rightarrow> jsnum) \<Rightarrow> 'a \<Rightarrow> 'a list \<Rightarrow> 'a list" where
  "insert_js cmp x [] = [x]"
| "insert_js cmp x (y # ys) =
     (if Num 0 < cmp x y then y # insert_js cmp x ys else x # y # ys)"

fun sort_js :: "('a \<Rightarrow> 'a \<Rightarrow> jsnum) \<Rightarrow> 'a list \<Rightarrow> 'a list" where
  "sort_js cmp [] = []"
| "sort_js cmp (x # xs) = insert_js cmp x (sort_js cmp xs)"

text \<open>
  A \<^verbatim>\<open>Map\<close> iterates in insertion order, and \<^verbatim>\<open>set\<close> on a key that is present
  replaces the value where the key stands: an association list with distinct keys.
\<close>

type_synonym ('k, 'v) js_map = "('k \<times> 'v) list"

fun map_set :: "'k \<Rightarrow> 'v \<Rightarrow> ('k, 'v) js_map \<Rightarrow> ('k, 'v) js_map" where
  "map_set k v [] = [(k, v)]"
| "map_set k v ((k', v') # m) =
     (if k' = k then (k, v) # m else (k', v') # map_set k v m)"

definition map_values :: "('k, 'v) js_map \<Rightarrow> 'v list" where
  "map_values m = map snd m"

section \<open>The provider dispatcher (AIBrain)\<close>

text \<open>
  The \<^verbatim>\<open>any\<close>-typed request input is a JavaScript value. Reading a property of
  \<^verbatim>\<open>undefined\<close> or \<^verbatim>\<open>null\<close> throws a \<^verbatim>\<open>TypeError\<close>; the properties that
  \<^verbatim>\<open>process\<close> reads (\<^verbatim>\<open>messages\<close>, \<^verbatim>\<open>options\<close>, \<^verbatim>\<open>query\<close>, \<^verbatim>\<open>data\<close>,
  \<^verbatim>\<open>type\<close>) exist on no primitive and no array, where the read gives
  \<^verbatim>\<open>undefined\<close>.
\<close>

datatype jsval =
    JUndefined
  | JNull
  | JBool bool
  | JNumber jsnum
  | JString string
  | JArray "jsval list"
  | JObject "(string \<times> jsval) list"

text \<open>A thrown value: an \<^verbatim>\<open>Error\<close> instance with its message, or anything else.\<close>

datatype thrown = Error string | NonError jsval

definition typeError_read :: "string \<Rightarrow> string \<Rightarrow> thrown" where
  "typeError_read what key =
     Error (''Cannot read properties of '' @ what @ '' (reading '' @ [CHR 0x27] @ key @ [CHR 0x27] @ '')'')"

fun get_prop :: "jsval \<Rightarrow> string \<Rightarrow> thrown + jsval" where
  "get_prop JUndefined key = Inl (typeError_read ''undefined'' key)"
| "get_prop JNull key = Inl (typeError_read ''null'' key)"
| "get_prop (JObject kvs) key = Inr (case map_of kvs key of None \<Rightarrow> JUndefined | Some v \<Rightarrow> v)"
| "get_prop v key = Inr JUndefined"

datatype request_type =
  Chat | Analysis | Prediction | Education | Emotion | Nutrition | Fitness | Mental_health

fun request_type_string :: "request_type \<Rightarrow> string" where
  "request_type_string Chat = ''chat''"
| "request_type_string Analysis = ''analysis''"
| "request_type_string Prediction = ''prediction''"
| "request_type_string Education = ''education''"
| "request_type_string Emotion = ''emotion''"
| "request_type_string Nutrition = ''nutrition''"
| "request_type_string Fitness = ''fitness''"
| "request_type_string Mental_health = ''mental_health''"

text \<open>\<^verbatim>\<open>interface AIBrainRequest\<close>; its optional \<^verbatim>\<open>priority\<close> is \<open>request_priority\<close> here.\<close>

record AIBrainRequest =
  userId :: "string option"
  requestType :: request_type
  specialization :: string
  input :: jsval
  request_priority :: "jsnum option"
  fallback :: "bool option"

text \<open>\<^verbatim>\<open>interface AIBrainResponse\<close>.\<close>

record AIBrainResponse =
  success :: bool
  data :: "jsval option"
  error :: "string option"
  provider :: string
  model :: string
  responseTime :: int
  tokensUsed :: "jsnum option"
  cost :: "string option"

text \<open>
  \<^verbatim>\<open>interface IAIProvider\<close>. The five methods call a vendor over the network; each is
  a function from its arguments to the value the promise resolves to (\<open>Inr\<close>) or the
  value it rejects with (\<open>Inl\<close>). \<open>priority\<close> is an integer, as the data model has it
  (the providers of the repository carry 10, 9 and 8).
\<close>

record IAIProvider =
  name :: string
  isActive :: bool
  priority :: int
  rateLimit :: int
  chat :: "jsval \<Rightarrow> jsval \<Rightarrow> thrown + jsval"
  analyze :: "jsval \<Rightarrow> string \<Rightarrow> thrown + jsval"
  predict :: "jsval \<Rightarrow> thrown + jsval"
  educate :: "jsval \<Rightarrow> thrown + jsval"
  processEmotion :: "jsval \<Rightarrow> jsval \<Rightarrow> thrown + jsval"

text \<open>
  \<^verbatim>\<open>class AIBrain\<close>: the registry \<^verbatim>\<open>providers: Map<string, IAIProvider>\<close>. The maps
  \<^verbatim>\<open>models\<close> and \<^verbatim>\<open>providerConfigs\<close> are never written or read.
\<close>

record AIBrain =
  providers :: "(string, IAIProvider) js_map"

definition registerProvider :: "string \<Rightarrow> IAIProvider \<Rightarrow> AIBrain \<Rightarrow> AIBrain" where
  "registerProvider nm p brain = brain\<lparr>providers := map_set nm p (providers brain)\<rparr>"

text \<open>The comparator \<^verbatim>\<open>(a, b) => b.priority - a.priority\<close>.\<close>

definition by_priority_desc :: "IAIProvider \<Rightarrow> IAIProvider \<Rightarrow> jsnum" where
  "by_priority_desc a b = Num (of_int (priority b)) - Num (of_int (priority a))"

definition selectProvider :: "AIBrain \<Rightarrow> AIBrainRequest \<Rightarrow> IAIProvider option" where
  "selectProvider brain request =
     (let availableProviders =
            sort_js by_priority_desc (filter isActive (map_values (providers brain)))
      in case availableProviders of [] \<Rightarrow> None | p # _ \<Rightarrow> Some p)"

text \<open>
  One call of a provider method, as \<^verbatim>\<open>process\<close> makes it: the provider's name, the
  method and the arguments passed.
\<close>

datatype invocation =
    Call_chat string jsval jsval
  | Call_analyze string jsval string
  | Call_predict string jsval
  | Call_educate string jsval
  | Call_processEmotion string jsval jsval

text \<open>
  The \<^verbatim>\<open>try\<close> block of \<^verbatim>\<open>process\<close>: what it throws or the result with the provider
  used, and the provider calls it made on the way.
\<close>

definition process_try ::
  "AIBrain \<Rightarrow> AIBrainRequest \<Rightarrow> (thrown + jsval \<times> IAIProvider) \<times> invocation list" where
  "process_try brain request =
     (case selectProvider brain request of
        None \<Rightarrow> (Inl (Error ''No suitable AI provider available''), [])
      | Some p \<Rightarrow>
         (case requestType request of
            Chat \<Rightarrow>
              (case get_prop (input request) ''messages'' of
                 Inl e \<Rightarrow> (Inl e, [])
               | Inr messages \<Rightarrow>
                  (case get_prop (input request) ''options'' of
                     Inl e \<Rightarrow> (Inl e, [])
                   | Inr options \<Rightarrow>
                      (map_sum id (\<lambda>r. (r, p)) (chat p messages options),
                       [Call_chat (name p) messages options])))
          | Analysis \<Rightarrow>
              (map_sum id (\<lambda>r. (r, p)) (analyze p (input request) (specialization request)),
               [Call_analyze (name p) (input request) (specialization request)])
          | Prediction \<Rightarrow>
              (map_sum id (\<lambda>r. (r, p)) (predict p (input request)),
               [Call_predict (name p) (input request)])
          | Education \<Rightarrow>
              (case get_prop (input request) ''query'' of
                 Inl e \<Rightarrow> (Inl e, [])
               | Inr query \<Rightarrow>
                  (map_sum id (\<lambda>r. (r, p)) (educate p query),
                   [Call_educate (name p) query]))
          | Emotion \<Rightarrow>
              (case get_prop (input request) ''data'' of
                 Inl e \<Rightarrow> (Inl e, [])
               | Inr d \<Rightarrow>
                  (case get_prop (input request) ''type'' of
                     Inl e \<Rightarrow> (Inl e, [])
                   | Inr t \<Rightarrow>
                      (map_sum id (\<lambda>r. (r, p)) (processEmotion p d t),
                       [Call_processEmotion (name p) d t])))
          | other \<Rightarrow>
              (Inl (Error (''Unsupported request type: '' @ request_type_string other)), [])))"

text \<open>The \<^verbatim>\<open>catch\<close> clause: \<^verbatim>\<open>error instanceof Error ? error.message : 'Unknown error'\<close>.\<close>

fun error_message :: "thrown \<Rightarrow> string" where
  "error_message (Error msg) = msg"
| "error_message (NonError v) = ''Unknown error''"

text \<open>
  \<^verbatim>\<open>process\<close>, with the two readings of \<^verbatim>\<open>Date.now()\<close> as arguments: \<open>startTime\<close>
  on entry and \<open>endTime\<close> when the response is built. It returns the response and the
  provider calls made.
\<close>

definition process ::
  "AIBrain \<Rightarrow> int \<Rightarrow> int \<Rightarrow> AIBrainRequest \<Rightarrow> AIBrainResponse \<times> invocation list" where
  "process brain startTime endTime request =
     (case process_try brain request of
        (Inr (result, p), calls) \<Rightarrow>
          (\<lparr>success = True, data = Some result, error = None, provider = name p,
            model = ''default'', responseTime = endTime - startTime,
            tokensUsed = None, cost = None\<rparr>, calls)
      | (Inl e, calls) \<Rightarrow>
          (\<lparr>success = False, data = None, error = Some (error_message e),
            provider = ''unknown'', model = ''unknown'',
            responseTime = endTime - startTime,
            tokensUsed = None, cost = None\<rparr>, calls))"


section \<open>Strings\<close>

text \<open>
  A string is the list of its code units. \<^verbatim>\<open>String.prototype.toLowerCase\<close> maps a
  string by the Unicode case tables of the engine, which the repository does not hold,
  and it is not a map of single characters: every function that lowers a string takes
  it as its argument \<open>toLowerCase\<close>. \<^verbatim>\<open>includes\<close> looks for the search string at
  every position.
\<close>

fun startsWith :: "string \<Rightarrow> string \<Rightarrow> bool" where
  "startsWith s [] = True"
| "startsWith [] (c # q) = False"
| "startsWith (d # s) (c # q) = (d = c \<and> startsWith s q)"

fun string_includes :: "string \<Rightarrow> string \<Rightarrow> bool" where
  "string_includes [] q = startsWith [] q"
| "string_includes (d # s) q = (startsWith (d # s) q \<or> string_includes s q)"

text \<open>
  \<^verbatim>\<open>parseFloat\<close>: skip leading white space, read the longest prefix that is a
  \<^verbatim>\<open>StrDecimalLiteral\<close> (sign, \<^verbatim>\<open>Infinity\<close> or digits with an optional fraction and
  an optional exponent), and give \<open>NaN\<close> when there is none. The value is the exact
  decimal.
\<close>

definition isStrWhiteSpaceChar :: "char \<Rightarrow> bool" where
  "isStrWhiteSpaceChar c = ((of_char c :: nat) \<in> {9, 10, 11, 12, 13, 32})"

definition isDigit :: "char \<Rightarrow> bool" where
  "isDigit c = (48 \<le> (of_char c :: nat) \<and> (of_char c :: nat) \<le> 57)"

definition digits_value :: "string \<Rightarrow> nat" where
  "digits_value ds = foldl (\<lambda>acc c. 10 * acc + ((of_char c :: nat) - 48)) 0 ds"

fun parse_sign :: "string \<Rightarrow> int \<times> string" where
  "parse_sign [] = (1, [])"
| "parse_sign (c # r) =
     (if c = CHR ''-'' then (- 1, r) else if c = CHR ''+'' then (1, r) else (1, c # r))"

fun parse_exponent :: "string \<Rightarrow> int" where
  "parse_exponent [] = 0"
| "parse_exponent (e # r) =
     (if e = CHR ''e'' \<or> e = CHR ''E''
      then (let (sg, r') = parse_sign r; ds = takeWhile isDigit r'
            in if ds = [] then 0 else sg * int (digits_value ds))
      else 0)"

definition scale10 :: "real \<Rightarrow> int \<Rightarrow> real" where
  "scale10 m e = (if 0 \<le> e then m * 10 ^ nat e else m / 10 ^ nat (- e))"

definition parseFloat :: "string \<Rightarrow> jsnum" where
  "parseFloat s =
     (let (sg, u) = parse_sign (dropWhile isStrWhiteSpaceChar s)
      in if take 8 u = ''Infinity'' then (if sg < 0 then NInf else PInf)
         else
           (let ip = takeWhile isDigit u;
                r1 = dropWhile isDigit u;
                fp = (case r1 of [] \<Rightarrow> [] | c # r \<Rightarrow>
                        if c = CHR ''.'' then takeWhile isDigit r else []);
                r2 = (case r1 of [] \<Rightarrow> [] | c # r \<Rightarrow>
                        if c = CHR ''.'' then dropWhile isDigit r else r1)
            in if ip = [] \<and> fp = [] then NaN
               else Num (scale10
                      (of_int sg *
                         (of_nat (digits_value ip) + of_nat (digits_value fp) / 10 ^ length fp))
                      (parse_exponent r2))))"

section \<open>The clinic store (MemStorage)\<close>

text \<open>
  The table \<^verbatim>\<open>clinics\<close>: the fields \<^verbatim>\<open>id\<close>, \<^verbatim>\<open>name\<close> and \<^verbatim>\<open>type\<close> are \<open>clinic_id\<close>,
  \<open>clinic_name\<close> and \<open>clinic_type\<close> here. Latitude and longitude are stored as text.
\<close>

record Clinic =
  clinic_id :: string
  clinic_name :: string
  address :: string
  latitude :: string
  longitude :: string
  clinic_type :: string
  rating :: "int option"
  hours :: "string option"
  phone :: "string option"
  website :: "string option"

record ClinicSearchResult =
  clinic :: Clinic
  distance :: jsnum

text \<open>\<^verbatim>\<open>class MemStorage\<close>, its map \<^verbatim>\<open>clinics: Map<string, Clinic>\<close>.\<close>

record MemStorage =
  clinics :: "(string, Clinic) js_map"

text \<open>\<^verbatim>\<open>createClinic\<close>, with the identifier that \<^verbatim>\<open>randomUUID()\<close> returns as an argument.\<close>

definition createClinic :: "string \<Rightarrow> Clinic \<Rightarrow> MemStorage \<Rightarrow> Clinic \<times> MemStorage" where
  "createClinic uuid insertClinic storage =
     (let c = insertClinic\<lparr>clinic_id := uuid\<rparr>
      in (c, storage\<lparr>clinics := map_set uuid c (clinics storage)\<rparr>))"

definition getClinics :: "MemStorage \<Rightarrow> Clinic list" where
  "getClinics storage = map_values (clinics storage)"

text \<open>
  \<^verbatim>\<open>searchClinics(query, type?)\<close>. \<^verbatim>\<open>!type\<close> holds for an absent type and for the
  empty string.
\<close>

definition searchClinics ::
  "(string \<Rightarrow> string) \<Rightarrow> MemStorage \<Rightarrow> string \<Rightarrow> string option \<Rightarrow> Clinic list" where
  "searchClinics toLowerCase storage query type =
     filter (\<lambda>c.
        let matchesQuery =
              (string_includes (toLowerCase (clinic_name c)) (toLowerCase query) \<or>
               string_includes (toLowerCase (address c)) (toLowerCase query));
            matchesType =
              (case type of None \<Rightarrow> True | Some t \<Rightarrow> t = [] \<or> clinic_type c = t)
        in matchesQuery \<and> matchesType)
       (map_values (clinics storage))"

text \<open>The haversine formula of \<^verbatim>\<open>getClinicsByLocation\<close>.\<close>

definition calculateDistance :: "jsnum \<Rightarrow> jsnum \<Rightarrow> jsnum \<Rightarrow> jsnum \<Rightarrow> jsnum" where
  "calculateDistance lat1 lon1 lat2 lon2 =
     (let R = Num 3959;
          dLat = (lat2 - lat1) * Math_PI / Num 180;
          dLon = (lon2 - lon1) * Math_PI / Num 180;
          a = Math_sin (dLat / Num 2) * Math_sin (dLat / Num 2) +
              Math_cos (lat1 * Math_PI / Num 180) * Math_cos (lat2 * Math_PI / Num 180) *
              Math_sin (dLon / Num 2) * Math_sin (dLon / Num 2);
          c = Num 2 * Math_atan2 (Math_sqrt a) (Math_sqrt (Num 1 - a))
      in R * c)"

text \<open>The \<^verbatim>\<open>map\<close> step: a clinic with its distance from the query point.\<close>

definition with_distance :: "jsnum \<Rightarrow> jsnum \<Rightarrow> Clinic \<Rightarrow> ClinicSearchResult" where
  "with_distance lat lon c =
     \<lparr>clinic = c,
      distance = calculateDistance lat lon (parseFloat (latitude c)) (parseFloat (longitude c))\<rparr>"

text \<open>The comparator \<^verbatim>\<open>(a, b) => a.distance - b.distance\<close>.\<close>

definition by_distance :: "ClinicSearchResult \<Rightarrow> ClinicSearchResult \<Rightarrow> jsnum" where
  "by_distance a b = distance a - distance b"

text \<open>
  \<^verbatim>\<open>getClinicsByLocation(latitude, longitude, radius)\<close>; the query point is
  \<open>lat\<close>, \<open>lon\<close> here, the names \<open>latitude\<close> and \<open>longitude\<close> being the clinic's fields.
\<close>

definition getClinicsByLocation ::
  "MemStorage \<Rightarrow> jsnum \<Rightarrow> jsnum \<Rightarrow> jsnum \<Rightarrow> ClinicSearchResult list" where
  "getClinicsByLocation storage lat lon radius =
     sort_js by_distance
       (filter (\<lambda>result. distance result \<le> radius)
          (map (with_distance lat lon) (map_values (clinics storage))))"

section \<open>The handler of POST /api/clinics/search\<close>

text \<open>
  The body after \<^verbatim>\<open>schema.parse\<close>: every field is optional, and \<^verbatim>\<open>z.number()\<close>
  admits no \<open>NaN\<close>. A string is truthy when it is not empty, a number when it is neither
  \<open>0\<close> nor \<open>NaN\<close>; an absent field is falsy.
\<close>

record search_body =
  body_location :: "string option"
  body_latitude :: "jsnum option"
  body_longitude :: "jsnum option"
  body_radius :: "jsnum option"
  body_type :: "string option"
  body_query :: "string option"

fun truthy_string :: "string option \<Rightarrow> bool" where
  "truthy_string None = False"
| "truthy_string (Some s) = (s \<noteq> [])"

fun truthy_number :: "jsnum option \<Rightarrow> bool" where
  "truthy_number None = False"
| "truthy_number (Some n) = (n \<noteq> Num 0 \<and> n \<noteq> NaN)"

datatype search_branch = Geocode | Coordinates | Text_search | All_clinics

definition search_branch_of :: "search_body \<Rightarrow> search_branch" where
  "search_branch_of body =
     (if truthy_string (body_location body) \<and>
         (\<not> truthy_number (body_latitude body) \<or> \<not> truthy_number (body_longitude body))
      then Geocode
      else if truthy_number (body_latitude body) \<and> truthy_number (body_longitude body)
      then Coordinates
      else if truthy_string (body_query body) then Text_search
      else All_clinics)"

text \<open>
  The results the handler sends. \<^verbatim>\<open>mapsService.geocodeAddress\<close> asks a remote service
  and catches every error: it is the argument \<open>geocodeAddress\<close>, giving the coordinates
  or nothing. The radius defaults to 10.
\<close>

definition clinics_search ::
  "(string \<Rightarrow> string) \<Rightarrow> (string \<Rightarrow> (jsnum \<times> jsnum) option) \<Rightarrow> MemStorage \<Rightarrow>
   search_body \<Rightarrow> ClinicSearchResult list" where
  "clinics_search toLowerCase geocodeAddress storage body =
     (let radius = (case body_radius body of None \<Rightarrow> Num 10 | Some r \<Rightarrow> r);
          results =
            (case search_branch_of body of
               Geocode \<Rightarrow>
                 (case geocodeAddress (the (body_location body)) of
                    None \<Rightarrow> []
                  | Some (la, lo) \<Rightarrow> getClinicsByLocation storage la lo radius)
             | Coordinates \<Rightarrow>
                 getClinicsByLocation storage
                   (the (body_latitude body)) (the (body_longitude body)) radius
             | Text_search \<Rightarrow>
                 map (\<lambda>c. \<lparr>clinic = c, distance = Num 0\<rparr>)
                   (searchClinics toLowerCase storage (the (body_query body)) (body_type body))
             | All_clinics \<Rightarrow>
                 map (\<lambda>c. \<lparr>clinic = c, distance = Num 0\<rparr>) (getClinics storage))
      in if truthy_string (body_type body)
         then filter (\<lambda>result. clinic_type (clinic result) = the (body_type body)) results
         else results)"

text \<open>
  What an invocation does and whom it addresses, for stating which call
  \<^verbatim>\<open>process\<close> made and how it ended.
\<close>

fun invoke :: "IAIProvider \<Rightarrow> invocation \<Rightarrow> thrown + jsval" where
  "invoke p (Call_chat nm messages options) = chat p messages options"
| "invoke p (Call_analyze nm inp type) = analyze p inp type"
| "invoke p (Call_predict nm d) = predict p d"
| "invoke p (Call_educate nm query) = educate p query"
| "invoke p (Call_processEmotion nm d t) = processEmotion p d t"

fun invocation_provider :: "invocation \<Rightarrow> string" where
  "invocation_provider (Call_chat nm messages options) = nm"
| "invocation_provider (Call_analyze nm inp type) = nm"
| "invocation_provider (Call_predict nm d) = nm"
| "invocation_provider (Call_educate nm query) = nm"
| "invocation_provider (Call_processEmotion nm d t) = nm"

text \<open>The real value of a finite number, the sort key of the distances kept.\<close>

fun num_value :: "jsnum \<Rightarrow> real" where
  "num_value (Num x) = x"
| "num_value x = 0"


section \<open>Example data\<close>

text \<open>
  Concrete providers, registries, requests and stores, on which the theorems below are
  instantiated. A provider of \<open>example_provider\<close> answers every method with the same
  outcome.
\<close>

definition example_provider :: "string \<Rightarrow> bool \<Rightarrow> int \<Rightarrow> thrown + jsval \<Rightarrow> IAIProvider" where
  "example_provider nm act prio outcome =
     \<lparr>name = nm, isActive = act, priority = prio, rateLimit = 60,
      chat = (\<lambda>messages options. outcome),
      analyze = (\<lambda>inp type. outcome),
      predict = (\<lambda>d. outcome),
      educate = (\<lambda>query. outcome),
      processEmotion = (\<lambda>inp inputType. outcome)\<rparr>"

definition empty_brain :: AIBrain where
  "empty_brain = \<lparr>providers = []\<rparr>"

text \<open>The registry of the scenario: \<open>a\<close> (priority 5, active), then \<open>b\<close> (priority 9, inactive).\<close>

definition scenario_brain :: AIBrain where
  "scenario_brain =
     registerProvider ''b'' (example_provider ''b'' False 9 (Inr JNull))
       (registerProvider ''a'' (example_provider ''a'' True 5 (Inr JNull)) empty_brain)"

text \<open>Two active providers of equal priority, \<open>x\<close> registered first, and a lower one.\<close>

definition tie_brain :: AIBrain where
  "tie_brain =
     registerProvider ''z'' (example_provider ''z'' True 3 (Inr JNull))
       (registerProvider ''y'' (example_provider ''y'' True 7 (Inr JNull))
         (registerProvider ''x'' (example_provider ''x'' True 7 (Inr JNull)) empty_brain))"

text \<open>A registry whose only provider is inactive.\<close>

definition inactive_brain :: AIBrain where
  "inactive_brain =
     registerProvider ''b'' (example_provider ''b'' False 9 (Inr JNull)) empty_brain"

text \<open>
  The provider of highest priority rejects, with an \<^verbatim>\<open>Error\<close> in \<open>failing_brain\<close> and
  with a string in \<open>rejecting_brain\<close>; a second active provider would have answered.
\<close>

definition failing_brain :: AIBrain where
  "failing_brain =
     registerProvider ''backup'' (example_provider ''backup'' True 5 (Inr (JString ''ok'')))
       (registerProvider ''main'' (example_provider ''main'' True 9 (Inl (Error ''upstream failed'')))
         empty_brain)"

definition rejecting_brain :: AIBrain where
  "rejecting_brain =
     registerProvider ''backup'' (example_provider ''backup'' True 5 (Inr (JString ''ok'')))
       (registerProvider ''main'' (example_provider ''main'' True 9 (Inl (NonError (JString ''busy''))))
         empty_brain)"

definition example_request :: AIBrainRequest where
  "example_request =
     \<lparr>userId = None, requestType = Analysis, specialization = ''symptoms'',
      input = JObject [(''symptoms'', JString ''cough'')],
      request_priority = None, fallback = None\<rparr>"

text \<open>
  The strings of the examples are ASCII, where \<^verbatim>\<open>toLowerCase\<close> maps \<^verbatim>\<open>A\<close>..\<^verbatim>\<open>Z\<close> to
  \<^verbatim>\<open>a\<close>..\<^verbatim>\<open>z\<close> and leaves every other character alone.
\<close>

definition ascii_toLower :: "char \<Rightarrow> char" where
  "ascii_toLower c =
     (if 65 \<le> (of_char c :: nat) \<and> (of_char c :: nat) \<le> 90
      then char_of ((of_char c :: nat) + 32) else c)"

definition ascii_toLowerCase :: "string \<Rightarrow> string" where
  "ascii_toLowerCase s = map ascii_toLower s"

text \<open>
  A store of four clinics, in this order: one on the antimeridian, one whose latitude
  is no number, and two at the origin.
\<close>

definition example_clinic :: "string \<Rightarrow> string \<Rightarrow> string \<Rightarrow> string \<Rightarrow> string \<Rightarrow> Clinic" where
  "example_clinic i nm ty la lo =
     \<lparr>clinic_id = i, clinic_name = nm, address = ''123 Main Street, Downtown'',
      latitude = la, longitude = lo, clinic_type = ty,
      rating = Some 4, hours = None, phone = None, website = None\<rparr>"

definition empty_storage :: MemStorage where
  "empty_storage = \<lparr>clinics = []\<rparr>"

definition example_storage :: MemStorage where
  "example_storage =
     snd (createClinic ''id4'' (example_clinic '''' ''QuickCare Urgent Care'' ''urgent'' ''0.0'' ''0'')
      (snd (createClinic ''id3'' (example_clinic '''' ''City Medical Center'' ''general'' ''0'' ''0'')
       (snd (createClinic ''id2'' (example_clinic '''' ''Family Health Partners'' ''general'' ''n/a'' ''0'')
        (snd (createClinic ''id1'' (example_clinic '''' ''Harbor Clinic'' ''specialist'' ''0'' ''180'')
          empty_storage)))))))"

text \<open>A search body with coordinates on the equator and nothing else.\<close>

definition equator_body :: search_body where
  "equator_body =
     \<lparr>body_location = None, body_latitude = Some (Num 0), body_longitude = Some (Num 10),
      body_radius = None, body_type = None, body_query = None\<rparr>"

section \<open>Sorting lemmas\<close>

lemma set_insert_js: "set (insert_js cmp x xs) = insert x (set xs)"
  by (induction xs) auto

lemma set_sort_js: "set (sort_js cmp xs) = set xs"
  by (induction xs) (simp_all add: set_insert_js)

lemma insert_js_insort_key:
  assumes "\<And>y. y \<in> set ys \<Longrightarrow> (Num 0 < cmp x y) = (f y < f x)"
  shows "insert_js cmp x ys = insort_key f x ys"
  using assms by (induction ys) (auto simp: not_less)

lemma sort_js_sort_key:
  fixes f :: "'a \<Rightarrow> 'k::linorder"
  assumes "\<And>x y. x \<in> set xs \<Longrightarrow> y \<in> set xs \<Longrightarrow> (Num 0 < cmp x y) = (f y < f x)"
  shows "sort_js cmp xs = sort_key f xs"
  using assms
proof (induction xs)
  case Nil
  show ?case by simp
next
  case (Cons x xs)
  have tl: "sort_js cmp xs = sort_key f xs"
    using Cons.prems by (intro Cons.IH) simp_all
  have "insert_js cmp x (sort_key f xs) = insort_key f x (sort_key f xs)"
    using Cons.prems by (intro insert_js_insort_key) simp_all
  with tl show ?case by simp
qed

lemma by_priority_desc_pos:
  "(Num 0 < by_priority_desc a b) = (- priority b < - priority a)"
  by (simp add: by_priority_desc_def)

lemma sort_by_priority:
  "sort_js by_priority_desc ps = sort_key (\<lambda>p. - priority p) ps"
  by (rule sort_js_sort_key) (simp add: by_priority_desc_pos)

lemma find_filter: "find P (filter Q xs) = find (\<lambda>x. Q x \<and> P x) xs"
  by (induction xs) auto

text \<open>The head of a stably sorted list is the first element of least key.\<close>

lemma sort_key_head:
  fixes f :: "'a \<Rightarrow> 'k::linorder"
  shows "(case sort_key f xs of [] \<Rightarrow> None | p # _ \<Rightarrow> Some p) =
     find (\<lambda>p. \<forall>q\<in>set xs. f p \<le> f q) xs"
proof (induction xs)
  case Nil
  show ?case by simp
next
  case (Cons x xs)
  show ?case
  proof (cases "\<forall>q\<in>set xs. f x \<le> f q")
    case True
    then have "\<forall>q\<in>set (sort_key f xs). f x \<le> f q" by simp
    then have "insort_key f x (sort_key f xs) = x # sort_key f xs"
      by (cases "sort_key f xs") auto
    with True show ?thesis by simp
  next
    case False
    then obtain q0 where q0: "q0 \<in> set xs" "f q0 < f x" by (auto simp: not_le)
    have eq: "find (\<lambda>p. \<forall>q\<in>set (x # xs). f p \<le> f q) xs = find (\<lambda>p. \<forall>q\<in>set xs. f p \<le> f q) xs"
      using q0 by (intro find_cong) (auto intro: order.trans less_imp_le)
    obtain y ys where ys: "sort_key f xs = y # ys"
      using q0(1) by (cases "sort_key f xs") (auto dest: arg_cong[where f = set])
    have y: "find (\<lambda>p. \<forall>q\<in>set xs. f p \<le> f q) xs = Some y"
      using Cons.IH ys by simp
    then have ymin: "\<forall>q\<in>set xs. f y \<le> f q"
      by (auto simp: find_Some_iff)
    then have "\<not> f x \<le> f y" using q0 by (auto simp: not_le intro: le_less_trans)
    then have "insort_key f x (sort_key f xs) = y # insort_key f x ys"
      using ys by simp
    then have lhs: "(case sort_key f (x # xs) of [] \<Rightarrow> None | p # _ \<Rightarrow> Some p) = Some y"
      by simp
    have "\<not> (\<forall>q\<in>set (x # xs). f x \<le> f q)"
      using False by simp
    then have "find (\<lambda>p. \<forall>q\<in>set (x # xs). f p \<le> f q) (x # xs) =
               find (\<lambda>p. \<forall>q\<in>set (x # xs). f p \<le> f q) xs"
      by (simp only: find.simps if_False)
    with eq y lhs show ?thesis by simp
  qed
qed

section \<open>Provider selection\<close>

lemmas brain_defs = scenario_brain_def tie_brain_def inactive_brain_def failing_brain_def
  rejecting_brain_def empty_brain_def registerProvider_def example_provider_def map_values_def

text \<open>
  Registering under a new name appends to the registry, so the order of
  \<open>map_values (providers brain)\<close> is the order of first registration.
\<close>

lemma map_set_fresh: "k \<notin> fst ` set m \<Longrightarrow> map_set k v m = m @ [(k, v)]"
  by (induction m) auto

lemma registerProvider_fresh:
  "nm \<notin> fst ` set (providers brain) \<Longrightarrow>
   map_values (providers (registerProvider nm p brain)) = map_values (providers brain) @ [p]"
  by (simp add: registerProvider_def map_values_def map_set_fresh)

text \<open>
  Claim C1. \<open>selectProvider\<close> returns the first provider, in registration order, that
  is active and whose priority no active provider exceeds; with no active provider it
  returns nothing. So the provider returned is active, has the highest priority among
  the active ones, is the first registered of those that share it, and an inactive
  provider is never returned, whatever its priority.
\<close>

theorem selectProvider_highest_active_priority:
  "selectProvider brain request =
     find (\<lambda>p. isActive p \<and>
                (\<forall>q\<in>set (map_values (providers brain)). isActive q \<longrightarrow> priority q \<le> priority p))
       (map_values (providers brain))"
proof -
  let ?ps = "map_values (providers brain)"
  have "selectProvider brain request =
          (case sort_key (\<lambda>p. - priority p) (filter isActive ?ps) of [] \<Rightarrow> None | p # _ \<Rightarrow> Some p)"
    by (simp add: selectProvider_def sort_by_priority)
  also have "\<dots> = find (\<lambda>p. \<forall>q\<in>set (filter isActive ?ps). - priority p \<le> - priority q)
                      (filter isActive ?ps)"
    by (rule sort_key_head)
  also have "\<dots> = find (\<lambda>p. isActive p \<and> (\<forall>q\<in>set ?ps. isActive q \<longrightarrow> priority q \<le> priority p)) ?ps"
    unfolding find_filter by (intro find_cong) auto
  finally show ?thesis .
qed

theorem selectProvider_highest_active_priority_witness:
  "map_option name (selectProvider scenario_brain example_request) = Some ''a'' \<and>
   map_option name (selectProvider tie_brain example_request) = Some ''x''"
  using selectProvider_highest_active_priority [of scenario_brain example_request]
        selectProvider_highest_active_priority [of tie_brain example_request]
  by (simp add: brain_defs)

section \<open>Dispatch\<close>

lemma selectProvider_None:
  "(selectProvider brain request = None) =
     (\<forall>p\<in>set (map_values (providers brain)). \<not> isActive p)"
proof -
  have "(sort_js by_priority_desc (filter isActive (map_values (providers brain))) = []) =
        (filter isActive (map_values (providers brain)) = [])"
    using set_sort_js [of by_priority_desc "filter isActive (map_values (providers brain))"]
    by (metis set_empty)
  then show ?thesis
    by (auto simp: selectProvider_def Let_def filter_empty_conv split: list.splits)
qed

text \<open>
  Claim C2, as amended. With no active provider in the registry, \<open>process\<close> throws
  nothing and calls no provider: for every request it returns the failure envelope
  with \<open>success = False\<close> and the error message
  \<^verbatim>\<open>No suitable AI provider available\<close>.
\<close>

theorem process_no_active_provider:
  assumes "\<forall>p\<in>set (map_values (providers brain)). \<not> isActive p"
  shows "process brain startTime endTime request =
           (\<lparr>success = False, data = None,
             error = Some ''No suitable AI provider available'',
             provider = ''unknown'', model = ''unknown'',
             responseTime = endTime - startTime, tokensUsed = None, cost = None\<rparr>, [])"
proof -
  have "selectProvider brain request = None"
    using assms by (simp add: selectProvider_None)
  then show ?thesis
    by (simp add: process_def process_try_def)
qed

theorem process_no_active_provider_witness:
  "filter isActive (map_values (providers inactive_brain)) = [] \<and>
   success (fst (process inactive_brain 1000 1003 example_request)) = False \<and>
   error (fst (process inactive_brain 1000 1003 example_request)) =
     Some ''No suitable AI provider available'' \<and>
   responseTime (fst (process inactive_brain 1000 1003 example_request)) = 3"
proof -
  have h: "\<forall>p\<in>set (map_values (providers inactive_brain)). \<not> isActive p"
    by (simp add: brain_defs)
  show ?thesis
    using process_no_active_provider [OF h, of 1000 1003 example_request]
    by (simp add: brain_defs)
qed

text \<open>
  Claim C2 as stated names the error \<^verbatim>\<open>NoProviderAvailable\<close>; that is not the string
  the envelope carries.
\<close>

theorem process_no_active_provider_counterexample:
  "\<not> (success (fst (process inactive_brain 1000 1003 example_request)) = False \<and>
      error (fst (process inactive_brain 1000 1003 example_request)) = Some ''NoProviderAvailable'')"
  by (simp add: process_def process_try_def selectProvider_def brain_defs)

lemma process_try_calls:
  assumes "selectProvider brain request = Some p"
    and "snd (process_try brain request) = c # cs"
  shows "cs = [] \<and> invocation_provider c = name p \<and>
         fst (process_try brain request) = map_sum id (\<lambda>r. (r, p)) (invoke p c)"
  using assms
  by (auto simp: process_try_def split: request_type.splits sum.splits)

lemma snd_process: "snd (process brain startTime endTime request) = snd (process_try brain request)"
  by (simp add: process_def split: prod.splits sum.splits)

lemma length_process_calls: "length (snd (process brain startTime endTime request)) \<le> 1"
  by (auto simp: snd_process process_try_def split: request_type.splits sum.splits option.splits)

text \<open>
  Claim C8. When the call that \<open>process\<close> makes on the selected provider rejects with
  \<open>e\<close>, the response is the failure envelope: \<open>success = False\<close>, no data, and as error
  the message of \<open>e\<close> when \<open>e\<close> is an \<^verbatim>\<open>Error\<close>, \<^verbatim>\<open>Unknown error\<close> when it is any other
  value. That call went to the selected provider and it is the only call made: no other
  provider, no second attempt.
\<close>

theorem process_provider_failure:
  assumes "selectProvider brain request = Some p"
    and "snd (process brain startTime endTime request) = c # cs"
    and "invoke p c = Inl e"
  shows "fst (process brain startTime endTime request) =
           \<lparr>success = False, data = None,
            error = Some (case e of Error msg \<Rightarrow> msg | NonError v \<Rightarrow> ''Unknown error''),
            provider = ''unknown'', model = ''unknown'',
            responseTime = endTime - startTime, tokensUsed = None, cost = None\<rparr> \<and>
         cs = [] \<and> invocation_provider c = name p"
proof -
  have calls: "snd (process_try brain request) = c # cs"
    using assms(2) by (simp add: snd_process)
  from process_try_calls [OF assms(1) calls]
  have cs: "cs = []" and nm: "invocation_provider c = name p"
    and res: "fst (process_try brain request) = Inl e"
    using assms(3) by simp_all
  obtain calls' where "process_try brain request = (Inl e, calls')"
    using res by (cases "process_try brain request") simp
  then have "fst (process brain startTime endTime request) =
           \<lparr>success = False, data = None,
            error = Some (case e of Error msg \<Rightarrow> msg | NonError v \<Rightarrow> ''Unknown error''),
            provider = ''unknown'', model = ''unknown'',
            responseTime = endTime - startTime, tokensUsed = None, cost = None\<rparr>"
    by (cases e) (simp_all add: process_def)
  with cs nm show ?thesis by simp
qed

theorem process_provider_failure_witness:
  "selectProvider failing_brain example_request =
     Some (example_provider ''main'' True 9 (Inl (Error ''upstream failed''))) \<and>
   snd (process failing_brain 1000 1007 example_request) =
     [Call_analyze ''main'' (JObject [(''symptoms'', JString ''cough'')]) ''symptoms''] \<and>
   success (fst (process failing_brain 1000 1007 example_request)) = False \<and>
   error (fst (process failing_brain 1000 1007 example_request)) = Some ''upstream failed'' \<and>
   snd (process rejecting_brain 1000 1007 example_request) =
     [Call_analyze ''main'' (JObject [(''symptoms'', JString ''cough'')]) ''symptoms''] \<and>
   success (fst (process rejecting_brain 1000 1007 example_request)) = False \<and>
   error (fst (process rejecting_brain 1000 1007 example_request)) = Some ''Unknown error''"
proof -
  let ?main = "example_provider ''main'' True 9 (Inl (Error ''upstream failed''))"
  let ?main' = "example_provider ''main'' True 9 (Inl (NonError (JString ''busy'')))"
  let ?call = "Call_analyze ''main'' (JObject [(''symptoms'', JString ''cough'')]) ''symptoms''"
  have sel: "selectProvider failing_brain example_request = Some ?main"
    by (simp add: selectProvider_def brain_defs by_priority_desc_def)
  have calls: "snd (process failing_brain 1000 1007 example_request) = ?call # []"
    by (simp add: snd_process process_try_def sel)
       (simp add: example_request_def example_provider_def)
  have rej: "invoke ?main ?call = Inl (Error ''upstream failed'')"
    by (simp add: example_provider_def)
  have sel': "selectProvider rejecting_brain example_request = Some ?main'"
    by (simp add: selectProvider_def brain_defs by_priority_desc_def)
  have calls': "snd (process rejecting_brain 1000 1007 example_request) = ?call # []"
    by (simp add: snd_process process_try_def sel')
       (simp add: example_request_def example_provider_def)
  have rej': "invoke ?main' ?call = Inl (NonError (JString ''busy''))"
    by (simp add: example_provider_def)
  show ?thesis
    using sel calls calls' process_provider_failure [OF sel calls rej]
      process_provider_failure [OF sel' calls' rej']
    by simp
qed

text \<open>
  Claim C9. Two requests that differ in the \<open>fallback\<close> flag only get the same response,
  up to the measured \<open>responseTime\<close>, and cause the same provider calls with the same
  arguments.
\<close>

theorem process_fallback_noninterference:
  "(fst (process brain startTime endTime (request\<lparr>fallback := f1\<rparr>)))\<lparr>responseTime := 0\<rparr> =
   (fst (process brain startTime' endTime' (request\<lparr>fallback := f2\<rparr>)))\<lparr>responseTime := 0\<rparr> \<and>
   snd (process brain startTime endTime (request\<lparr>fallback := f1\<rparr>)) =
   snd (process brain startTime' endTime' (request\<lparr>fallback := f2\<rparr>))"
proof -
  have upd: "process_try brain (request\<lparr>fallback := f\<rparr>) = process_try brain request" for f
    by (simp add: process_try_def selectProvider_def
          split: option.split request_type.split sum.split)
  have "process_try brain (request\<lparr>fallback := f1\<rparr>) = process_try brain (request\<lparr>fallback := f2\<rparr>)"
    by (simp only: upd)
  then show ?thesis
    by (simp add: process_def split: prod.splits sum.splits)
qed

theorem process_fallback_noninterference_witness:
  "(fst (process failing_brain 1000 1007 (example_request\<lparr>fallback := Some True\<rparr>)))\<lparr>responseTime := 0\<rparr> =
   (fst (process failing_brain 2000 2900 (example_request\<lparr>fallback := None\<rparr>)))\<lparr>responseTime := 0\<rparr>"
  using process_fallback_noninterference
          [where brain = failing_brain and request = example_request and ?f1.0 = "Some True"
             and ?f2.0 = None and startTime = 1000 and endTime = 1007
             and startTime' = 2000 and endTime' = 2900]
  by simp


section \<open>The haversine distance\<close>

text \<open>
  A point is at distance \<open>0\<close> from itself: both differences are \<open>0\<close>, so is \<^verbatim>\<open>a\<close>, and
  \<^verbatim>\<open>Math.atan2(0, 1)\<close> is \<open>0\<close>.
\<close>

lemma calculateDistance_same:
  "calculateDistance (Num lat) (Num lon) (Num lat) (Num lon) = Num 0"
  by (simp add: calculateDistance_def Math_PI_def atan2_def)

section \<open>Search by location\<close>

lemma NaN_absorbs [simp]:
  "x + NaN = NaN" "x - NaN = NaN" "x * NaN = NaN" "x / NaN = NaN"
  "\<not> x \<le> NaN" "\<not> x < NaN"
  by (cases x; simp)+

lemma Math_atan2_NaN [simp]: "Math_atan2 y NaN = NaN"
  by (cases y) simp_all

lemma Math_atan2_finite: "Math_atan2 y x \<noteq> PInf \<and> Math_atan2 y x \<noteq> NInf"
  by (cases y; cases x) simp_all

lemma Math_atan2_cases: "Math_atan2 y x = NaN \<or> (\<exists>r. Math_atan2 y x = Num r)"
  using Math_atan2_finite [of y x] by (cases "Math_atan2 y x") simp_all

lemma calculateDistance_cases:
  "calculateDistance lat1 lon1 lat2 lon2 = NaN \<or> (\<exists>d. calculateDistance lat1 lon1 lat2 lon2 = Num d)"
proof -
  obtain a where "calculateDistance lat1 lon1 lat2 lon2 =
      Num 3959 * (Num 2 * Math_atan2 (Math_sqrt a) (Math_sqrt (Num 1 - a)))"
    by (simp add: calculateDistance_def Let_def)
  then show ?thesis
    using Math_atan2_cases [of "Math_sqrt a" "Math_sqrt (Num 1 - a)"] by auto
qed

lemma calculateDistance_NaN:
  "calculateDistance lat lon NaN lon2 = NaN" "calculateDistance lat lon lat2 NaN = NaN"
  by (simp_all add: calculateDistance_def Let_def)

lemma le_radius_Num:
  assumes "distance (with_distance lat lon c) \<le> radius"
  shows "\<exists>d. distance (with_distance lat lon c) = Num d"
  using assms calculateDistance_cases [of lat lon "parseFloat (latitude c)" "parseFloat (longitude c)"]
  by (auto simp: with_distance_def)

lemma by_distance_pos:
  assumes "distance a = Num x" "distance b = Num y"
  shows "(Num 0 < by_distance a b) = (num_value (distance b) < num_value (distance a))"
  using assms by (simp add: by_distance_def)

lemma sort_by_distance:
  assumes "\<forall>r\<in>set rs. \<exists>d. distance r = Num d"
  shows "sort_js by_distance rs = sort_key (\<lambda>r. num_value (distance r)) rs"
proof (rule sort_js_sort_key)
  fix a b
  assume "a \<in> set rs" "b \<in> set rs"
  then obtain x y where "distance a = Num x" "distance b = Num y"
    using assms by blast
  then show "(Num 0 < by_distance a b) = (num_value (distance b) < num_value (distance a))"
    by (rule by_distance_pos)
qed

lemma sorted_by_distance:
  assumes "\<forall>r\<in>set rs. \<exists>d. distance r = Num d"
  shows "sorted_wrt (\<lambda>a b. distance a \<le> distance b) (sort_js by_distance rs)"
proof -
  let ?f = "\<lambda>r. num_value (distance r)"
  have "sorted (map ?f (sort_key ?f rs))"
    by (rule sorted_sort_key)
  then have "sorted_wrt (\<lambda>a b. ?f a \<le> ?f b) (sort_key ?f rs)"
    by (simp add: sorted_map)
  moreover have "distance a \<le> distance b"
    if "a \<in> set (sort_key ?f rs)" "b \<in> set (sort_key ?f rs)" "?f a \<le> ?f b" for a b
  proof -
    from that(1,2) have "a \<in> set rs" "b \<in> set rs" by simp_all
    then obtain x y where "distance a = Num x" "distance b = Num y"
      using assms by blast
    with that(3) show ?thesis by simp
  qed
  ultimately have "sorted_wrt (\<lambda>a b. distance a \<le> distance b) (sort_key ?f rs)"
    by (rule sorted_wrt_mono_rel [rotated]) 
  then show ?thesis
    by (simp add: sort_by_distance [OF assms])
qed

lemma stable_by_distance:
  assumes "\<forall>r\<in>set rs. \<exists>d. distance r = Num d"
  shows "filter (\<lambda>r. distance r = d) (sort_js by_distance rs) = filter (\<lambda>r. distance r = d) rs"
proof -
  let ?f = "\<lambda>r. num_value (distance r)"
  have key: "(distance r = d) = (?f r = num_value d \<and> d = Num (num_value d))" if "r \<in> set rs" for r
    using assms that by (cases d) auto
  have "filter (\<lambda>r. distance r = d) (sort_key ?f rs) =
        filter (\<lambda>r. ?f r = num_value d \<and> d = Num (num_value d)) (sort_key ?f rs)"
    by (rule filter_cong) (simp_all add: key)
  also have "\<dots> = filter (\<lambda>r. d = Num (num_value d)) (filter (\<lambda>r. ?f r = num_value d) (sort_key ?f rs))"
    by simp
  also have "\<dots> = filter (\<lambda>r. d = Num (num_value d)) (filter (\<lambda>r. ?f r = num_value d) rs)"
    by (simp only: sort_key_stable) 
  also have "\<dots> = filter (\<lambda>r. ?f r = num_value d \<and> d = Num (num_value d)) rs"
    by simp
  also have "\<dots> = filter (\<lambda>r. distance r = d) rs"
    by (rule filter_cong) (simp_all add: key)
  finally show ?thesis
    by (simp add: sort_by_distance [OF assms])
qed

lemma candidates_Num:
  "\<forall>r\<in>set (filter (\<lambda>result. distance result \<le> radius)
               (map (with_distance lat lon) (map_values (clinics storage)))).
     \<exists>d. distance r = Num d"
  by (auto dest: le_radius_Num)

text \<open>The search on the example store, from the origin with a radius of 20000 miles.\<close>

lemmas parse_defs = parseFloat_def isDigit_def isStrWhiteSpaceChar_def digits_value_def scale10_def

lemmas storage_defs = example_storage_def empty_storage_def createClinic_def example_clinic_def
  map_values_def getClinics_def Let_def

lemma example_values:
  "map_values (clinics example_storage) =
     [example_clinic ''id1'' ''Harbor Clinic'' ''specialist'' ''0'' ''180'',
      example_clinic ''id2'' ''Family Health Partners'' ''general'' ''n/a'' ''0'',
      example_clinic ''id3'' ''City Medical Center'' ''general'' ''0'' ''0'',
      example_clinic ''id4'' ''QuickCare Urgent Care'' ''urgent'' ''0.0'' ''0'']"
  by (simp add: storage_defs)

lemma example_parse:
  "parseFloat ''0'' = Num 0" "parseFloat ''0.0'' = Num 0" "parseFloat ''180'' = Num 180"
  "parseFloat ''n/a'' = NaN"
  by (simp_all add: parse_defs)

lemma half_equator: "calculateDistance (Num 0) (Num 0) (Num 0) (Num 180) = Num (3959 * pi)"
  by (simp add: calculateDistance_def Math_PI_def atan2_def)

lemma example_distances:
  "with_distance (Num 0) (Num 0) (example_clinic i nm ty ''0'' ''180'') =
     \<lparr>clinic = example_clinic i nm ty ''0'' ''180'', distance = Num (3959 * pi)\<rparr>"
  "with_distance (Num 0) (Num 0) (example_clinic i nm ty ''n/a'' ''0'') =
     \<lparr>clinic = example_clinic i nm ty ''n/a'' ''0'', distance = NaN\<rparr>"
  "with_distance (Num 0) (Num 0) (example_clinic i nm ty ''0'' ''0'') =
     \<lparr>clinic = example_clinic i nm ty ''0'' ''0'', distance = Num 0\<rparr>"
  "with_distance (Num 0) (Num 0) (example_clinic i nm ty ''0.0'' ''0'') =
     \<lparr>clinic = example_clinic i nm ty ''0.0'' ''0'', distance = Num 0\<rparr>"
  by (simp_all add: with_distance_def example_clinic_def example_parse half_equator
        calculateDistance_same calculateDistance_NaN)

lemma half_equator_bound: "3959 * pi \<le> 20000" "0 < 3959 * pi"
  using pi_less_4 pi_gt_zero by simp_all

lemma example_search:
  "getClinicsByLocation example_storage (Num 0) (Num 0) (Num 20000) =
     [\<lparr>clinic = example_clinic ''id3'' ''City Medical Center'' ''general'' ''0'' ''0'',
        distance = Num 0\<rparr>,
      \<lparr>clinic = example_clinic ''id4'' ''QuickCare Urgent Care'' ''urgent'' ''0.0'' ''0'',
        distance = Num 0\<rparr>,
      \<lparr>clinic = example_clinic ''id1'' ''Harbor Clinic'' ''specialist'' ''0'' ''180'',
        distance = Num (3959 * pi)\<rparr>]"
  by (simp add: getClinicsByLocation_def example_values example_distances half_equator_bound
        by_distance_def)

text \<open>
  Claim C4. Every result of \<open>getClinicsByLocation\<close> carries the distance computed for
  its clinic, and that distance is at most the radius (\<^verbatim>\<open><=\<close>, exactly and so within
  any epsilon).
\<close>

theorem getClinicsByLocation_within_radius:
  "\<forall>r\<in>set (getClinicsByLocation storage lat lon radius).
     distance r \<le> radius \<and>
     distance r = calculateDistance lat lon (parseFloat (latitude (clinic r)))
                    (parseFloat (longitude (clinic r)))"
  by (auto simp: getClinicsByLocation_def set_sort_js with_distance_def)

theorem getClinicsByLocation_within_radius_witness:
  "length (getClinicsByLocation example_storage (Num 0) (Num 0) (Num 20000)) = 3 \<and>
   list_all (\<lambda>r. distance r \<le> Num 20000)
     (getClinicsByLocation example_storage (Num 0) (Num 0) (Num 20000))"
proof -
  have "\<forall>r\<in>set (getClinicsByLocation example_storage (Num 0) (Num 0) (Num 20000)).
          distance r \<le> Num 20000"
    using getClinicsByLocation_within_radius [of example_storage "Num 0" "Num 0" "Num 20000"]
    by blast
  then have "list_all (\<lambda>r. distance r \<le> Num 20000)
     (getClinicsByLocation example_storage (Num 0) (Num 0) (Num 20000))"
    by (simp only: list_all_iff)
  moreover have "length (getClinicsByLocation example_storage (Num 0) (Num 0) (Num 20000)) = 3"
    by (simp add: example_search)
  ultimately show ?thesis by simp
qed

text \<open>
  Claim C5. The list returned by \<open>getClinicsByLocation\<close> is sorted non-decreasing by
  distance, and for every distance \<open>d\<close> the results at distance \<open>d\<close> are, in this order,
  the clinics of the store within the radius at distance \<open>d\<close>: ties keep the storage
  order.
\<close>

theorem getClinicsByLocation_sorted_stable:
  "sorted_wrt (\<lambda>a b. distance a \<le> distance b) (getClinicsByLocation storage lat lon radius) \<and>
   filter (\<lambda>r. distance r = d) (getClinicsByLocation storage lat lon radius) =
     filter (\<lambda>r. distance r = d)
       (filter (\<lambda>r. distance r \<le> radius)
          (map (with_distance lat lon) (map_values (clinics storage))))"
  unfolding getClinicsByLocation_def
  using sorted_by_distance [OF candidates_Num] stable_by_distance [OF candidates_Num]
  by blast

theorem getClinicsByLocation_sorted_stable_witness:
  "map (\<lambda>r. clinic_id (clinic r))
     (getClinicsByLocation example_storage (Num 0) (Num 0) (Num 20000)) =
     [''id3'', ''id4'', ''id1''] \<and>
   sorted_wrt (\<lambda>a b. distance a \<le> distance b)
     (getClinicsByLocation example_storage (Num 0) (Num 0) (Num 20000)) \<and>
   map (\<lambda>r. clinic_id (clinic r))
     (filter (\<lambda>r. distance r = Num 0)
        (getClinicsByLocation example_storage (Num 0) (Num 0) (Num 20000))) =
     [''id3'', ''id4'']"
proof -
  have ids: "map (\<lambda>r. clinic_id (clinic r))
     (getClinicsByLocation example_storage (Num 0) (Num 0) (Num 20000)) =
     [''id3'', ''id4'', ''id1'']"
    by (simp add: example_search example_clinic_def)
  have ties: "map (\<lambda>r. clinic_id (clinic r))
     (filter (\<lambda>r. distance r = Num 0)
       (filter (\<lambda>r. distance r \<le> Num 20000)
          (map (with_distance (Num 0) (Num 0)) (map_values (clinics example_storage))))) =
     [''id3'', ''id4'']"
    by (simp add: example_values example_distances half_equator_bound)
       (simp add: example_clinic_def)
  show ?thesis
    using getClinicsByLocation_sorted_stable
            [of example_storage "Num 0" "Num 0" "Num 20000" "Num 0"] ids ties
    by simp
qed

text \<open>
  Claim C7. For a clinic whose latitude or longitude does not parse to a number, the
  computed distance is \<open>NaN\<close>, the test \<^verbatim>\<open>distance <= radius\<close> fails, and the clinic
  is in no result. \<open>getClinicsByLocation\<close> has no error to raise: it returns a list for
  every store, query point and radius.
\<close>

theorem getClinicsByLocation_NaN_excluded:
  assumes "parseFloat (latitude c) = NaN \<or> parseFloat (longitude c) = NaN"
  shows "distance (with_distance lat lon c) = NaN \<and>
         \<not> distance (with_distance lat lon c) \<le> radius \<and>
         c \<notin> clinic ` set (getClinicsByLocation storage lat lon radius)"
proof -
  have nan: "distance (with_distance lat lon c) = NaN"
    using assms by (auto simp: with_distance_def calculateDistance_NaN)
  have "\<not> (NaN \<le> radius)" by simp
  moreover have False if "r \<in> set (getClinicsByLocation storage lat lon radius)" "clinic r = c" for r
  proof -
    have "distance r \<le> radius" "distance r = distance (with_distance lat lon c)"
      using that by (auto simp: getClinicsByLocation_def set_sort_js with_distance_def)
    then show False using nan by simp
  qed
  ultimately show ?thesis using nan by auto
qed

theorem getClinicsByLocation_NaN_excluded_witness:
  "parseFloat (latitude (example_clinic ''id2'' ''Family Health Partners'' ''general'' ''n/a'' ''0'')) = NaN \<and>
   example_clinic ''id2'' ''Family Health Partners'' ''general'' ''n/a'' ''0''
     \<in> set (getClinics example_storage) \<and>
   example_clinic ''id2'' ''Family Health Partners'' ''general'' ''n/a'' ''0''
     \<notin> clinic ` set (getClinicsByLocation example_storage (Num 0) (Num 0) (Num 20000))"
proof -
  let ?c = "example_clinic ''id2'' ''Family Health Partners'' ''general'' ''n/a'' ''0''"
  have nan: "parseFloat (latitude ?c) = NaN"
    by (simp add: example_clinic_def example_parse)
  then have h: "parseFloat (latitude ?c) = NaN \<or> parseFloat (longitude ?c) = NaN" ..
  have stored: "?c \<in> set (getClinics example_storage)"
    by (simp add: getClinics_def example_values)
  show ?thesis
    using nan stored
      getClinicsByLocation_NaN_excluded [OF h, of "Num 0" "Num 0" "Num 20000" example_storage]
    by simp
qed


section \<open>Search by text\<close>







section \<open>The branch taken by the search handler\<close>

lemma search_branch_without_coordinates:
  assumes "body_latitude body = Some (Num 0) \<or> body_longitude body = Some (Num 0)"
  shows "search_branch_of (body\<lparr>body_latitude := None, body_longitude := None\<rparr>) =
         search_branch_of body"
  using assms by (auto simp: search_branch_of_def)

text \<open>
  Claim C10. A body whose latitude or longitude is \<open>0\<close> never takes the coordinate
  branch: the handler geocodes when a location is given, else searches by text when a
  query is given, else lists all clinics, and it answers as it does for the same body
  without coordinates.
\<close>

theorem search_branch_zero_coordinate:
  assumes "body_latitude body = Some (Num 0) \<or> body_longitude body = Some (Num 0)"
  shows "search_branch_of body \<noteq> Coordinates \<and>
         search_branch_of body =
           (if truthy_string (body_location body) then Geocode
            else if truthy_string (body_query body) then Text_search
            else All_clinics) \<and>
         clinics_search toLowerCase geocodeAddress storage body =
           clinics_search toLowerCase geocodeAddress storage
             (body\<lparr>body_latitude := None, body_longitude := None\<rparr>)"
proof -
  have b: "search_branch_of body \<noteq> Coordinates \<and>
         search_branch_of body =
           (if truthy_string (body_location body) then Geocode
            else if truthy_string (body_query body) then Text_search
            else All_clinics)"
    using assms by (auto simp: search_branch_of_def)
  then have "clinics_search toLowerCase geocodeAddress storage body =
           clinics_search toLowerCase geocodeAddress storage
             (body\<lparr>body_latitude := None, body_longitude := None\<rparr>)"
    unfolding clinics_search_def search_branch_without_coordinates [OF assms]
    by (cases "search_branch_of body") (simp_all add: Let_def)
  with b show ?thesis by simp
qed

theorem search_branch_zero_coordinate_witness:
  "body_latitude equator_body = Some (Num 0) \<and>
   search_branch_of equator_body = All_clinics \<and>
   search_branch_of (equator_body\<lparr>body_latitude := Some (Num 1)\<rparr>) = Coordinates \<and>
   map (\<lambda>r. clinic_id (clinic r)) (clinics_search ascii_toLowerCase (\<lambda>a. None) example_storage equator_body) =
     [''id1'', ''id2'', ''id3'', ''id4'']"
proof -
  have lat: "body_latitude equator_body = Some (Num 0)"
    by (simp add: equator_body_def)
  then have h: "body_latitude equator_body = Some (Num 0) \<or> body_longitude equator_body = Some (Num 0)" ..
  have c: "search_branch_of (equator_body\<lparr>body_latitude := Some (Num 1)\<rparr>) = Coordinates"
    by (simp add: search_branch_of_def equator_body_def)
  have b: "search_branch_of equator_body = All_clinics"
    using search_branch_zero_coordinate [OF h] by (simp add: equator_body_def)
  have "map (\<lambda>r. clinic_id (clinic r)) (clinics_search ascii_toLowerCase (\<lambda>a. None) example_storage equator_body) =
     [''id1'', ''id2'', ''id3'', ''id4'']"
    by (simp add: clinics_search_def b getClinics_def example_values)
       (simp add: equator_body_def example_clinic_def)
  with lat b c show ?thesis by simp
qed

end
